theory Spec2Isabelle
  imports Complex_Main
begin

section \<open>JavaScript values\<close>

text \<open>
  The routes of the Shock Score backend work on plain JavaScript objects whose values
  are numbers. Such an object is kept as an association list in insertion order,
  which is the order \<^verbatim>\<open>Object.entries\<close> and \<^verbatim>\<open>Object.values\<close> enumerate.
  Numbers are taken as real numbers: the IEEE rounding of the individual
  operations is not part of this model, and a number is never NaN or infinite.
\<close>

type_synonym obj = "(string \<times> real) list"

text \<open>
  A JSON value: what \<^verbatim>\<open>JSON.parse\<close> and the analyzer's output deliver, and what
  \<^verbatim>\<open>res.json\<close> and \<^verbatim>\<open>JSON.stringify\<close> serialise.
\<close>

datatype json =
  JNull | JNum real | JStr string | JBool bool | JArr "json list" | JObj "(string \<times> json) list"

definition num_obj :: "obj \<Rightarrow> json" where
  "num_obj ob = JObj (map (\<lambda>(k, v). (k, JNum v)) ob)"

text \<open>
  \<^verbatim>\<open>(emotions.k || 0)\<close>: a missing property reads as \<^verbatim>\<open>undefined\<close>, which is falsy,
  so the expression is 0; a number that is not 0 is truthy and is the value of the
  expression; the number 0 is falsy and the expression is again 0.
\<close>

definition prop_or0 :: "obj \<Rightarrow> string \<Rightarrow> real" where
  "prop_or0 ob k = (case map_of ob k of None \<Rightarrow> 0 | Some v \<Rightarrow> v)"

text \<open>\<^verbatim>\<open>Math.round\<close> rounds to the nearest integer, a half towards plus infinity.\<close>

definition Math_round :: "real \<Rightarrow> real" where
  "Math_round x = of_int \<lfloor>x + 1 / 2\<rfloor>"

section \<open>The shock score of one frame\<close>

text \<open>
  \<^verbatim>\<open>calculateShockScore\<close> is defined three times in the repository (the Express
  route that calls the Python analyzer, the simplified Express route, and the Netlify
  function) with the same constants and the same body.
\<close>

definition FEAR_WEIGHT :: real where "FEAR_WEIGHT = 2.0"
definition SURPRISE_WEIGHT :: real where "SURPRISE_WEIGHT = 1.5"
definition DISGUST_WEIGHT :: real where "DISGUST_WEIGHT = 0.8"
definition HAPPY_WEIGHT :: real where "HAPPY_WEIGHT = 0.3"
definition ANGRY_WEIGHT :: real where "ANGRY_WEIGHT = 0.2"
definition SAD_WEIGHT :: real where "SAD_WEIGHT = 0.1"

definition calculateShockScore :: "obj \<Rightarrow> real" where
  "calculateShockScore emotions =
     (let score = prop_or0 emotions ''fear'' * FEAR_WEIGHT +
                  prop_or0 emotions ''surprise'' * SURPRISE_WEIGHT +
                  prop_or0 emotions ''disgust'' * DISGUST_WEIGHT +
                  prop_or0 emotions ''happy'' * HAPPY_WEIGHT +
                  prop_or0 emotions ''angry'' * ANGRY_WEIGHT +
                  prop_or0 emotions ''sad'' * SAD_WEIGHT;
          maxPossible = 100 * (FEAR_WEIGHT + SURPRISE_WEIGHT);
          normalized = min 100 ((score / maxPossible) * 100)
      in Math_round (normalized * 10) / 10)"

text \<open>
  The source computes in double arithmetic. The value handed to \<^verbatim>\<open>Math.round\<close> can
  differ there from the real number in its last bits, so next to a midpoint between two
  tenths the source may return the other neighbouring tenth: for \<^verbatim>\<open>surprise\<close> 33.25
  alone the real value is 142.5 and is rounded up to 14.3 here, while the double is
  just below 142.5 and the source returns 14.2. The statements below about this
  function are chosen so that they do not depend on that difference.
\<close>

text \<open>
  The formula of the specification, written from its words for comparison with the
  code: signed deltas against a session baseline, a tension term, and a clamp of the
  combined value to the interval from 0 to 100.
\<close>

definition spec_raw_score :: "real \<Rightarrow> real \<Rightarrow> obj \<Rightarrow> real" where
  "spec_raw_score baseline_fear baseline_surprise current =
     (let fear_delta = prop_or0 current ''fear'' - baseline_fear;
          surprise_delta = prop_or0 current ''surprise'' - baseline_surprise;
          tension = (prop_or0 current ''fear'' + prop_or0 current ''disgust'') / 2
      in fear_delta * 2.0 + surprise_delta * 1.5 + tension)"

definition spec_score :: "real \<Rightarrow> real \<Rightarrow> obj \<Rightarrow> real" where
  "spec_score baseline_fear baseline_surprise current =
     max 0 (min 100 (spec_raw_score baseline_fear baseline_surprise current))"

text \<open>The weighted sum that \<^const>\<open>calculateShockScore\<close> forms first.\<close>

definition weighted_sum :: "obj \<Rightarrow> real" where
  "weighted_sum ob =
     prop_or0 ob ''fear'' * FEAR_WEIGHT + prop_or0 ob ''surprise'' * SURPRISE_WEIGHT +
     prop_or0 ob ''disgust'' * DISGUST_WEIGHT + prop_or0 ob ''happy'' * HAPPY_WEIGHT +
     prop_or0 ob ''angry'' * ANGRY_WEIGHT + prop_or0 ob ''sad'' * SAD_WEIGHT"

text \<open>The frame of the specification's concrete scenario.\<close>

definition scenario_frame :: obj where
  "scenario_frame = [(''fear'', 40), (''surprise'', 20), (''disgust'', 10)]"


section \<open>The simplified analysis route and the Netlify function\<close>

text \<open>
  Both generate mock emotion values from seven calls of \<^verbatim>\<open>Math.random\<close>, normalise
  them to 100, pick the dominant emotion and compute the shock score. The random
  source is an input of the model: \<open>rnd i\<close> is what the \<open>i\<close>-th call returns while
  one request is handled, in the order in which the source evaluates the calls.
  \<^verbatim>\<open>Math.random\<close> returns a number that is at least 0 and less than 1.
\<close>

definition random_ok :: "(nat \<Rightarrow> real) \<Rightarrow> nat \<Rightarrow> bool" where
  "random_ok rnd n = (\<forall>i < n. 0 \<le> rnd i \<and> rnd i < 1)"

definition mockEmotions :: "(nat \<Rightarrow> real) \<Rightarrow> obj" where
  "mockEmotions rnd =
     [(''angry'', rnd 0 * 15),
      (''disgust'', rnd 1 * 10),
      (''fear'', 20 + rnd 2 * 40),
      (''happy'', rnd 3 * 25),
      (''sad'', rnd 4 * 15),
      (''surprise'', 10 + rnd 5 * 30),
      (''neutral'', 10 + rnd 6 * 30)]"

text \<open>\<^verbatim>\<open>Object.values(mockEmotions).reduce((a, b) => a + b, 0)\<close>\<close>

definition total_of :: "obj \<Rightarrow> real" where
  "total_of ob = foldl (\<lambda>a b. a + b) 0 (map snd ob)"

text \<open>
  The loop that fills \<^verbatim>\<open>normalized\<close>. In HOL a division by 0 is 0 where JavaScript
  yields NaN or an infinity; \<open>total\<close> is shown below to be positive for every
  result of the random source, so the two never differ here.
\<close>

definition normalize_obj :: "obj \<Rightarrow> obj" where
  "normalize_obj ob =
     (let total = total_of ob
      in map (\<lambda>(emotion, v). (emotion, (v / total) * 100)) ob)"

text \<open>
  \<^verbatim>\<open>Object.entries(normalized).reduce((a, b) => a[1] > b[1] ? a : b)[0]\<close>: without
  an initial value \<^verbatim>\<open>reduce\<close> starts from the first entry and throws a TypeError on
  an empty array, which is the value \<open>None\<close>.
\<close>

definition dominant :: "obj \<Rightarrow> string option" where
  "dominant ob =
     (case ob of
        [] \<Rightarrow> None
      | x # xs \<Rightarrow> Some (fst (foldl (\<lambda>a b. if snd a > snd b then a else b) x xs)))"

text \<open>
  What a route handler does with a request: it sends a JSON body with a status code,
  or it hands an error to Express's error middleware with \<^verbatim>\<open>next(err)\<close>.
\<close>

datatype result = Res nat json | Next

definition analyze_simple_frame :: "(nat \<Rightarrow> real) \<Rightarrow> result" where
  "analyze_simple_frame rnd =
     (let mock = mockEmotions rnd;
          normalized = normalize_obj mock
      in case dominant normalized of
           None \<Rightarrow>
             Res 500 (JObj [(''faceDetected'', JBool False),
                            (''error'', JStr ''Reduce of empty array with no initial value'')])
         | Some dominantEmotion \<Rightarrow>
             (let shockScore = calculateShockScore normalized
              in Res 200 (JObj [(''faceDetected'', JBool True),
                                (''emotions'', num_obj normalized),
                                (''dominantEmotion'', JStr dominantEmotion),
                                (''shockScore'', JNum shockScore),
                                (''_mode'', JStr ''mock'')])))"




section \<open>The analysis route that calls the Python analyzer\<close>

text \<open>
  \<^verbatim>\<open>PythonShell.run\<close> resolves with the parsed output lines of the analyzer script
  or rejects. The first line is the analysis: it may be absent, and an analysis may
  lack its \<^verbatim>\<open>emotions\<close> or \<^verbatim>\<open>dominantEmotion\<close> property. The analyzer script
  is not part of the sources at hand: \<^verbatim>\<open>emotions\<close> and \<^verbatim>\<open>dominantEmotion\<close> are
  whatever JSON values it printed, and whatever else its output line carries is kept
  as a list of further properties.
\<close>

record analysis =
  faceDetected :: bool
  emotions :: "json option"
  dominantEmotion :: "json option"
  other :: "(string \<times> json) list"

datatype py_outcome = PyRejected | PyResolved "analysis option"

text \<open>
  What \<^verbatim>\<open>calculateShockScore\<close> meets when it is applied to a JSON value. It reads
  six properties. Reading a property of \<^verbatim>\<open>null\<close> throws a TypeError; a number, a
  string, a boolean and an array have none of the six properties. In
  \<^verbatim>\<open>(emotions.k || 0) * WEIGHT\<close> a missing property, \<^verbatim>\<open>null\<close>, \<^verbatim>\<open>false\<close>, 0 and
  the empty string are falsy and give 0, and \<^verbatim>\<open>true\<close> is multiplied as 1. A
  non-empty string, an array or an object is turned into a number by JavaScript's
  conversion rules, which are not modelled: the score of such a value is a parameter
  \<open>coerce\<close> of the handler, \<open>None\<close> when the result is not a finite number
  (\<^verbatim>\<open>res.json\<close> writes it as \<^verbatim>\<open>null\<close>).
\<close>

definition score_keys :: "string list" where
  "score_keys = [''fear'', ''surprise'', ''disgust'', ''happy'', ''angry'', ''sad'']"

fun prop_number :: "json option \<Rightarrow> real option" where
  "prop_number None = Some 0"
| "prop_number (Some JNull) = Some 0"
| "prop_number (Some (JNum x)) = Some x"
| "prop_number (Some (JStr s)) = (if s = [] then Some 0 else None)"
| "prop_number (Some (JBool b)) = Some (if b then 1 else 0)"
| "prop_number (Some (JArr xs)) = None"
| "prop_number (Some (JObj kvs)) = None"

datatype score_input = Throws | Numbers obj | Coerced

definition read_emotions :: "json \<Rightarrow> score_input" where
  "read_emotions e =
     (case e of
        JNull \<Rightarrow> Throws
      | JObj kvs \<Rightarrow>
          (case those (map (\<lambda>k. map_option (Pair k) (prop_number (map_of kvs k))) score_keys) of
             Some ob \<Rightarrow> Numbers ob
           | None \<Rightarrow> Coerced)
      | _ \<Rightarrow> Numbers [])"

text \<open>The bytes of an uploaded frame, \<^verbatim>\<open>req.file.buffer\<close>.\<close>

type_synonym buffer = "char list"

text \<open>The response of the inner \<^verbatim>\<open>catch (pythonError)\<close> block.\<close>

definition python_error_response :: "(nat \<Rightarrow> real) \<Rightarrow> result" where
  "python_error_response rnd =
     Res 200 (JObj [(''faceDetected'', JBool True),
                    (''emotions'', num_obj [(''angry'', rnd 0 * 10),
                                            (''disgust'', rnd 1 * 5),
                                            (''fear'', rnd 2 * 30),
                                            (''happy'', rnd 3 * 20),
                                            (''sad'', rnd 4 * 15),
                                            (''surprise'', rnd 5 * 20),
                                            (''neutral'', rnd 6 * 40)]),
                    (''dominantEmotion'', JStr ''neutral''),
                    (''shockScore'', JNum (rnd 7 * 50)),
                    (''_note'', JStr ''Using mock data - Python engine unavailable'')])"

text \<open>The response of the branch taken when no face was detected.\<close>

definition no_face_response :: result where
  "no_face_response =
     Res 200 (JObj [(''faceDetected'', JBool False),
                    (''message'', JStr ''No face detected in frame'')])"

text \<open>
  The handler of \<^verbatim>\<open>POST /api/analyze/frame\<close>. Its inputs are the uploaded file (if
  any), whether \<^verbatim>\<open>fs.mkdir\<close> and \<^verbatim>\<open>fs.writeFile\<close> succeed, the outcome of the
  analyzer call and the random source. A failure of \<^verbatim>\<open>mkdir\<close> or \<^verbatim>\<open>writeFile\<close>
  is caught by the outer handler and passed to \<^verbatim>\<open>next\<close>; a failure of
  \<^verbatim>\<open>fs.unlink\<close> is swallowed. An analysis that reports a face but whose
  \<^verbatim>\<open>emotions\<close> is missing or \<^verbatim>\<open>null\<close> makes \<^verbatim>\<open>calculateShockScore\<close> throw a
  TypeError inside the inner \<^verbatim>\<open>try\<close>, which the inner \<^verbatim>\<open>catch\<close> handles like a
  rejected analyzer call. The success response passes \<^verbatim>\<open>analysis.emotions\<close> and
  \<^verbatim>\<open>analysis.dominantEmotion\<close> on as they are; \<^verbatim>\<open>res.json\<close> leaves out a property
  whose value is \<^verbatim>\<open>undefined\<close>.
\<close>

text \<open>
  \<^verbatim>\<open>calculateShockScore\<close> applied to the analyzer's \<^verbatim>\<open>emotions\<close> value: \<open>None\<close>
  when the call throws, otherwise the JSON value that the response carries as
  \<^verbatim>\<open>shockScore\<close>.
\<close>

definition score_of_json :: "(json \<Rightarrow> real option) \<Rightarrow> json \<Rightarrow> json option" where
  "score_of_json coerce ems =
     (case read_emotions ems of
        Throws \<Rightarrow> None
      | Numbers ob \<Rightarrow> Some (JNum (calculateShockScore ob))
      | Coerced \<Rightarrow> Some (case coerce ems of None \<Rightarrow> JNull | Some s \<Rightarrow> JNum s))"

definition analyze_frame ::
  "(json \<Rightarrow> real option) \<Rightarrow> buffer option \<Rightarrow> bool \<Rightarrow> bool \<Rightarrow> py_outcome \<Rightarrow> (nat \<Rightarrow> real)
     \<Rightarrow> result" where
  "analyze_frame coerce file mkdir_ok writeFile_ok py rnd =
     (case file of
        None \<Rightarrow> Res 400 (JObj [(''error'', JStr ''No frame provided'')])
      | Some buf \<Rightarrow>
          if \<not> mkdir_ok then Next
          else if \<not> writeFile_ok then Next
          else
            (case py of
               PyRejected \<Rightarrow> python_error_response rnd
             | PyResolved None \<Rightarrow> no_face_response
             | PyResolved (Some a) \<Rightarrow>
                 if faceDetected a then
                   (case emotions a of
                      None \<Rightarrow> python_error_response rnd
                    | Some ems \<Rightarrow>
                        (case score_of_json coerce ems of
                           None \<Rightarrow> python_error_response rnd
                         | Some shockScore \<Rightarrow>
                             Res 200 (JObj ([(''faceDetected'', JBool True),
                                             (''emotions'', ems)] @
                                            (case dominantEmotion a of
                                               None \<Rightarrow> []
                                             | Some d \<Rightarrow> [(''dominantEmotion'', d)]) @
                                            [(''shockScore'', shockScore)]))))
                 else no_face_response))"

section \<open>The video routes\<close>

text \<open>
  The upload directory is a map from paths to entries. \<^verbatim>\<open>fs.access\<close> succeeds on a
  path that has an entry. \<^verbatim>\<open>fs.readFile\<close> returns the content of a file, fails with
  the code ENOENT where there is no entry, and fails with another code on a directory.
  \<^verbatim>\<open>path.join\<close> and \<^verbatim>\<open>JSON.parse\<close> are library functions and are parameters
  of the model; a \<^verbatim>\<open>JSON.parse\<close> that throws is the value \<open>None\<close>.
\<close>

datatype entry = File string | Dir

type_synonym filesystem = "string \<rightharpoonup> entry"

definition reportPath :: "(string list \<Rightarrow> string) \<Rightarrow> string \<Rightarrow> string \<Rightarrow> string" where
  "reportPath join dirname videoId = join [dirname, ''../uploads'', videoId @ ''-report.json'']"

text \<open>\<^verbatim>\<open>GET /api/videos/:id/status\<close>; the handler returns its response and the file system it leaves.\<close>

definition get_status ::
  "(string list \<Rightarrow> string) \<Rightarrow> string \<Rightarrow> filesystem \<Rightarrow> string \<Rightarrow> result \<times> filesystem" where
  "get_status join dirname fs videoId =
     (case fs (reportPath join dirname videoId) of
        Some _ \<Rightarrow>
          (Res 200 (JObj [(''videoId'', JStr videoId),
                          (''status'', JStr ''completed''),
                          (''reportAvailable'', JBool True)]), fs)
      | None \<Rightarrow>
          (Res 200 (JObj [(''videoId'', JStr videoId),
                          (''status'', JStr ''processing''),
                          (''reportAvailable'', JBool False)]), fs))"

text \<open>\<^verbatim>\<open>GET /api/videos/:id/report\<close>\<close>

definition get_report ::
  "(string \<Rightarrow> json option) \<Rightarrow> (string list \<Rightarrow> string) \<Rightarrow> string \<Rightarrow> filesystem \<Rightarrow> string
     \<Rightarrow> result \<times> filesystem" where
  "get_report parse join dirname fs videoId =
     (case fs (reportPath join dirname videoId) of
        None \<Rightarrow>
          (Res 404 (JObj [(''error'', JStr ''Report not found. Video may still be processing.'')]), fs)
      | Some Dir \<Rightarrow> (Next, fs)
      | Some (File reportData) \<Rightarrow>
          (case parse reportData of
             None \<Rightarrow> (Next, fs)
           | Some report \<Rightarrow>
               (Res 200 (JObj [(''videoId'', JStr videoId), (''report'', report)]), fs)))"

section \<open>Reading a response\<close>


definition field :: "json \<Rightarrow> string \<Rightarrow> json option" where
  "field j k = (case j of JObj kvs \<Rightarrow> map_of kvs k | _ \<Rightarrow> None)"

definition res_status :: "result \<Rightarrow> nat option" where
  "res_status r = (case r of Res code _ \<Rightarrow> Some code | Next \<Rightarrow> None)"


definition res_field :: "result \<Rightarrow> string \<Rightarrow> json option" where
  "res_field r k = (case r of Res _ b \<Rightarrow> field b k | Next \<Rightarrow> None)"




text \<open>Inputs for concrete examples: a random source that always returns the same number,
  and a \<^verbatim>\<open>path.join\<close> that puts a separator between the segments.\<close>

definition constant_source :: "real \<Rightarrow> nat \<Rightarrow> real" where
  "constant_source c i = c"

definition slash_join :: "string list \<Rightarrow> string" where
  "slash_join ps = (case ps of [] \<Rightarrow> ''.'' | p # qs \<Rightarrow> foldl (\<lambda>a b. a @ ''/'' @ b) p qs)"



text \<open>
  For concrete examples: a conversion that never yields a finite number, and an
  analyzer output whose \<^verbatim>\<open>emotions\<close> object holds, next to two category values, a
  face id and a bounding box.
\<close>

definition no_coercion :: "json \<Rightarrow> real option" where
  "no_coercion j = None"




section \<open>Properties of the shock score\<close>

lemmas weight_defs =
  FEAR_WEIGHT_def SURPRISE_WEIGHT_def DISGUST_WEIGHT_def
  HAPPY_WEIGHT_def ANGRY_WEIGHT_def SAD_WEIGHT_def

lemma maxPossible_value: "100 * (FEAR_WEIGHT + SURPRISE_WEIGHT) = 350"
  by (simp add: weight_defs)

lemma calculateShockScore_weighted:
  "calculateShockScore ob = Math_round (min 100 (weighted_sum ob / 350 * 100) * 10) / 10"
  unfolding calculateShockScore_def weighted_sum_def Let_def maxPossible_value
  by (rule refl)

lemma Math_round_mono: "x \<le> y \<Longrightarrow> Math_round x \<le> Math_round y"
  unfolding Math_round_def by (simp add: floor_mono)

lemma Math_round_of_int: "Math_round (of_int n) = of_int n"
proof -
  have "\<lfloor>real_of_int n + 1 / 2\<rfloor> = n"
    by (rule floor_unique) simp_all
  then show ?thesis
    by (simp only: Math_round_def)
qed

lemma prop_or0_nonneg:
  assumes "\<forall>x \<in> set ob. 0 \<le> snd x"
  shows "0 \<le> prop_or0 ob k"
proof (cases "map_of ob k")
  case None
  then show ?thesis by (simp add: prop_or0_def)
next
  case (Some v)
  then have "(k, v) \<in> set ob" by (rule map_of_SomeD)
  with assms have "0 \<le> v" by fastforce
  with Some show ?thesis by (simp add: prop_or0_def)
qed

lemma weighted_sum_nonneg:
  assumes "\<forall>x \<in> set ob. 0 \<le> snd x"
  shows "0 \<le> weighted_sum ob"
  using prop_or0_nonneg [OF assms]
  by (simp add: weighted_sum_def weight_defs)

lemma weighted_sum_mono:
  assumes "\<And>k. prop_or0 a k \<le> prop_or0 b k"
  shows "weighted_sum a \<le> weighted_sum b"
proof -
  have "prop_or0 a ''fear'' \<le> prop_or0 b ''fear''"
    "prop_or0 a ''surprise'' \<le> prop_or0 b ''surprise''"
    "prop_or0 a ''disgust'' \<le> prop_or0 b ''disgust''"
    "prop_or0 a ''happy'' \<le> prop_or0 b ''happy''"
    "prop_or0 a ''angry'' \<le> prop_or0 b ''angry''"
    "prop_or0 a ''sad'' \<le> prop_or0 b ''sad''"
    using assms by blast+
  then show ?thesis
    by (simp add: weighted_sum_def weight_defs)
qed

lemma score_mono_pointwise:
  assumes "\<And>k. prop_or0 a k \<le> prop_or0 b k"
  shows "calculateShockScore a \<le> calculateShockScore b"
proof -
  have "weighted_sum a \<le> weighted_sum b"
    using assms by (rule weighted_sum_mono)
  then have "min 100 (weighted_sum a / 350 * 100) * 10 \<le> min 100 (weighted_sum b / 350 * 100) * 10"
    by (simp add: min_def)
  then have "Math_round (min 100 (weighted_sum a / 350 * 100) * 10)
      \<le> Math_round (min 100 (weighted_sum b / 350 * 100) * 10)"
    by (rule Math_round_mono)
  then show ?thesis
    by (simp add: calculateShockScore_weighted)
qed

text \<open>
  C1 (as stated, refuted). The claim says that \<^verbatim>\<open>calculateShockScore\<close> computes
  the baseline-relative raw score of the specification and returns 100 in the concrete
  scenario. The function has no baseline: at the scenario frame (fear 40, surprise 20,
  disgust 10) it returns 33.7, while the specification's formula with baseline fear 5
  and surprise 3 gives the raw score 120.5 and the clamped score 100.
\<close>

theorem C1_scenario_counterexample:
  "calculateShockScore scenario_frame = 337 / 10 \<and>
   spec_raw_score 5 3 scenario_frame = 241 / 2 \<and>
   spec_score 5 3 scenario_frame = 100 \<and>
   calculateShockScore scenario_frame \<noteq> spec_score 5 3 scenario_frame"
  by (simp add: calculateShockScore_def spec_score_def spec_raw_score_def scenario_frame_def
      prop_or0_def weight_defs Math_round_def Let_def)

lemma Math_round_near: "\<bar>Math_round x - x\<bar> \<le> 1 / 2"
  unfolding Math_round_def by linarith

lemma weighted_sum_numerals:
  "weighted_sum ob =
      2 * prop_or0 ob ''fear'' + 3 / 2 * prop_or0 ob ''surprise'' +
      4 / 5 * prop_or0 ob ''disgust'' + 3 / 10 * prop_or0 ob ''happy'' +
      1 / 5 * prop_or0 ob ''angry'' + 1 / 10 * prop_or0 ob ''sad''"
  by (simp add: weighted_sum_def weight_defs)

lemma score_tenths:
  assumes "\<forall>x \<in> set ob. 0 \<le> snd x"
  shows "\<exists>k :: int. 0 \<le> k \<and> k \<le> 1000 \<and> calculateShockScore ob = of_int k / 10 \<and>
     \<bar>of_int k / 10 - min 100 (weighted_sum ob / 350 * 100)\<bar> \<le> 1 / 20"
proof -
  let ?n = "min 100 (weighted_sum ob / 350 * 100)"
  let ?k = "\<lfloor>?n * 10 + 1 / 2\<rfloor>"
  have e: "calculateShockScore ob = of_int ?k / 10"
    by (simp only: calculateShockScore_weighted Math_round_def)
  have "0 \<le> weighted_sum ob"
    using assms by (rule weighted_sum_nonneg)
  then have n0: "0 \<le> ?n" by simp
  have n1: "?n \<le> 100" by simp
  have k0: "0 \<le> ?k" using n0 by linarith
  have k1: "?k \<le> 1000" using n1 by linarith
  have "\<bar>of_int ?k - ?n * 10\<bar> \<le> 1 / 2"
    using Math_round_near [of "?n * 10"] by (simp only: Math_round_def)
  then have "\<bar>of_int ?k / 10 - ?n\<bar> \<le> 1 / 20"
    by linarith
  with e k0 k1 show ?thesis by blast
qed

text \<open>
  C1 (amended). \<^verbatim>\<open>calculateShockScore\<close> takes only the frame's emotion values and
  has no baseline. For non-negative values its result is a whole number of tenths
  between 0 and 100 that lies within 0.05 of the capped, normalised weighted sum
  min(100, (2.0 fear + 1.5 surprise + 0.8 disgust + 0.3 happy + 0.2 angry + 0.1 sad)
  / 350 * 100), a missing category counting as 0. The bound leaves a margin of one
  billionth beyond 0.05: at or next to a midpoint between two tenths the tenth that
  is returned depends on the rounding of the double arithmetic, and the statement
  does not fix it. At the scenario frame the result is 33.7.
\<close>

theorem C1_calculateShockScore_formula:
  assumes "\<forall>x \<in> set ob. 0 \<le> snd x"
  shows "(\<exists>k :: int. 0 \<le> k \<and> k \<le> 1000 \<and> calculateShockScore ob = of_int k / 10 \<and>
            \<bar>of_int k / 10 -
              min 100 ((2 * prop_or0 ob ''fear'' + 3 / 2 * prop_or0 ob ''surprise'' +
                        4 / 5 * prop_or0 ob ''disgust'' + 3 / 10 * prop_or0 ob ''happy'' +
                        1 / 5 * prop_or0 ob ''angry'' + 1 / 10 * prop_or0 ob ''sad'') / 350 * 100)\<bar>
              \<le> 1 / 20 + 1 / 1000000000) \<and>
         calculateShockScore scenario_frame = 337 / 10"
proof
  obtain k :: int where k: "0 \<le> k" "k \<le> 1000" "calculateShockScore ob = of_int k / 10"
    "\<bar>of_int k / 10 - min 100 (weighted_sum ob / 350 * 100)\<bar> \<le> 1 / 20"
    using score_tenths [OF assms] by blast
  have "\<bar>of_int k / 10 - min 100 (weighted_sum ob / 350 * 100)\<bar> \<le> 1 / 20 + 1 / 1000000000"
    using k(4) by linarith
  then have "\<bar>of_int k / 10 -
              min 100 ((2 * prop_or0 ob ''fear'' + 3 / 2 * prop_or0 ob ''surprise'' +
                        4 / 5 * prop_or0 ob ''disgust'' + 3 / 10 * prop_or0 ob ''happy'' +
                        1 / 5 * prop_or0 ob ''angry'' + 1 / 10 * prop_or0 ob ''sad'') / 350 * 100)\<bar>
              \<le> 1 / 20 + 1 / 1000000000"
    by (simp only: weighted_sum_numerals)
  with k(1,2,3) show "\<exists>k :: int. 0 \<le> k \<and> k \<le> 1000 \<and> calculateShockScore ob = of_int k / 10 \<and>
            \<bar>of_int k / 10 -
              min 100 ((2 * prop_or0 ob ''fear'' + 3 / 2 * prop_or0 ob ''surprise'' +
                        4 / 5 * prop_or0 ob ''disgust'' + 3 / 10 * prop_or0 ob ''happy'' +
                        1 / 5 * prop_or0 ob ''angry'' + 1 / 10 * prop_or0 ob ''sad'') / 350 * 100)\<bar>
              \<le> 1 / 20 + 1 / 1000000000"
    by blast
  show "calculateShockScore scenario_frame = 337 / 10"
    by (simp add: calculateShockScore_def scenario_frame_def prop_or0_def weight_defs
        Math_round_def Let_def)
qed

theorem C1_calculateShockScore_formula_witness:
  "\<exists>k :: int. 0 \<le> k \<and> k \<le> 1000 \<and>
       calculateShockScore [(''surprise'', 133 / 4)] = of_int k / 10 \<and>
       \<bar>of_int k / 10 - (57 / 4 :: real)\<bar> \<le> 1 / 20 + 1 / 1000000000"
proof -
  have h: "\<forall>x \<in> set [(''surprise'', 133 / 4 :: real)]. 0 \<le> snd x"
    by simp
  have v: "min 100 ((2 * prop_or0 [(''surprise'', 133 / 4)] ''fear'' +
                     3 / 2 * prop_or0 [(''surprise'', 133 / 4)] ''surprise'' +
                     4 / 5 * prop_or0 [(''surprise'', 133 / 4)] ''disgust'' +
                     3 / 10 * prop_or0 [(''surprise'', 133 / 4)] ''happy'' +
                     1 / 5 * prop_or0 [(''surprise'', 133 / 4)] ''angry'' +
                     1 / 10 * prop_or0 [(''surprise'', 133 / 4)] ''sad'') / 350 * 100) = (57 / 4 :: real)"
    by (simp add: prop_or0_def)
  from C1_calculateShockScore_formula [OF h] show ?thesis
    unfolding v by (rule conjunct1)
qed

text \<open>
  C2. For every emotion object whose values are all non-negative, the score returned
  by \<^verbatim>\<open>calculateShockScore\<close> lies between 0 and 100.
\<close>

theorem C2_score_in_range:
  assumes "\<forall>x \<in> set ob. 0 \<le> snd x"
  shows "0 \<le> calculateShockScore ob \<and> calculateShockScore ob \<le> 100"
proof -
  let ?n = "min 100 (weighted_sum ob / 350 * 100) * 10"
  have w: "0 \<le> weighted_sum ob"
    using assms by (rule weighted_sum_nonneg)
  have lo: "0 \<le> ?n" using w by simp
  have hi: "?n \<le> 1000" by simp
  have z: "Math_round 0 = 0"
    using Math_round_of_int [of 0] by simp
  have k: "Math_round 1000 = 1000"
    using Math_round_of_int [of 1000] by simp
  have r_lo: "0 \<le> Math_round ?n"
    using Math_round_mono [OF lo] z by simp
  have r_hi: "Math_round ?n \<le> 1000"
    using Math_round_mono [OF hi] k by simp
  show ?thesis
    using r_lo r_hi by (simp add: calculateShockScore_weighted)
qed

theorem C2_score_in_range_witness:
  "0 \<le> calculateShockScore [(''fear'', 90), (''surprise'', 80)] \<and>
   calculateShockScore [(''fear'', 90), (''surprise'', 80)] \<le> 100"
proof -
  have h: "\<forall>x \<in> set [(''fear'', 90), (''surprise'', 80 :: real)]. 0 \<le> snd x"
    by simp
  show ?thesis
    by (rule C2_score_in_range [OF h])
qed

text \<open>
  C8. \<^verbatim>\<open>calculateShockScore\<close> is monotone in each category: when one object
  arises from another by setting a single category \<open>k\<close> to a value that is not
  below the value read for \<open>k\<close> before, the score does not decrease. This holds for
  every category name, also for one that carries no weight, and does not need the
  values to be non-negative.
\<close>

theorem C8_score_monotone:
  assumes "map_of b = (map_of a)(k \<mapsto> v)"
    and "prop_or0 a k \<le> v"
  shows "calculateShockScore a \<le> calculateShockScore b"
proof (rule score_mono_pointwise)
  fix j
  show "prop_or0 a j \<le> prop_or0 b j"
    using assms by (cases "j = k") (simp_all add: prop_or0_def)
qed

theorem C8_score_monotone_witness:
  "map_of [(''fear'', 30 :: real), (''sad'', 5)] = (map_of [(''fear'', 10), (''sad'', 5)])(''fear'' \<mapsto> 30) \<and>
   prop_or0 [(''fear'', 10), (''sad'', 5)] ''fear'' \<le> 30 \<and>
   calculateShockScore [(''fear'', 10), (''sad'', 5)] \<le> calculateShockScore [(''fear'', 30), (''sad'', 5)]"
proof -
  have m: "map_of [(''fear'', 30 :: real), (''sad'', 5)] = (map_of [(''fear'', 10), (''sad'', 5)])(''fear'' \<mapsto> 30)"
    by (rule ext) simp
  have p: "prop_or0 [(''fear'', 10), (''sad'', 5)] ''fear'' \<le> 30"
    by (simp add: prop_or0_def)
  from C8_score_monotone [OF m p] m p show ?thesis by blast
qed

section \<open>Properties of the mock analysis\<close>

lemma foldl_plus_sum_list: "foldl (\<lambda>a b. a + b) (s :: real) xs = s + sum_list xs"
  by (induction xs arbitrary: s) simp_all

lemma total_of_sum_list: "total_of ob = sum_list (map snd ob)"
  by (simp add: total_of_def foldl_plus_sum_list)

lemma sum_list_scaled:
  "sum_list (map snd (map (\<lambda>(emotion, v). (emotion, (v / t) * 100)) ob)) = (sum_list (map snd ob) / t) * (100 :: real)"
  by (induction ob) (auto simp: add_divide_distrib ring_distribs)

lemma normalize_obj_sum:
  assumes "total_of ob \<noteq> 0"
  shows "sum_list (map snd (normalize_obj ob)) = 100"
  using assms unfolding normalize_obj_def Let_def sum_list_scaled
  by (simp add: total_of_sum_list)

lemma normalize_obj_range:
  assumes nn: "\<forall>x \<in> set ob. 0 \<le> snd x" and pos: "0 < total_of ob"
  shows "\<forall>y \<in> set (normalize_obj ob). 0 \<le> snd y \<and> snd y \<le> 100"
proof
  fix y assume "y \<in> set (normalize_obj ob)"
  then obtain k v where kv: "(k, v) \<in> set ob" and y: "y = (k, (v / total_of ob) * 100)"
    by (auto simp: normalize_obj_def Let_def)
  have v0: "0 \<le> v" using nn kv by fastforce
  have "v \<in> set (map snd ob)" using kv by force
  moreover have "\<And>x. x \<in> set (map snd ob) \<Longrightarrow> 0 \<le> x" using nn by auto
  ultimately have "v \<le> sum_list (map snd ob)"
    by (intro member_le_sum_list) auto
  then have vt: "v \<le> total_of ob" by (simp add: total_of_sum_list)
  define q where "q = v / total_of ob"
  have q0: "0 \<le> q" using v0 pos by (simp add: q_def)
  have q1: "q \<le> 1" using vt pos by (simp add: q_def)
  have "snd y = q * 100" by (simp add: y q_def)
  then show "0 \<le> snd y \<and> snd y \<le> 100" using q0 q1 by simp
qed

lemma mockEmotions_nonneg:
  assumes "random_ok rnd 7"
  shows "\<forall>x \<in> set (mockEmotions rnd). 0 \<le> snd x"
proof -
  have "0 \<le> rnd 0" "0 \<le> rnd 1" "0 \<le> rnd 2" "0 \<le> rnd 3" "0 \<le> rnd 4" "0 \<le> rnd 5" "0 \<le> rnd 6"
    using assms by (simp_all add: random_ok_def)
  then show ?thesis by (simp add: mockEmotions_def)
qed

lemma mockEmotions_total:
  assumes "random_ok rnd 7"
  shows "40 \<le> total_of (mockEmotions rnd)"
proof -
  have "0 \<le> rnd 0" "0 \<le> rnd 1" "0 \<le> rnd 2" "0 \<le> rnd 3" "0 \<le> rnd 4" "0 \<le> rnd 5" "0 \<le> rnd 6"
    using assms by (simp_all add: random_ok_def)
  then show ?thesis by (simp add: mockEmotions_def total_of_def)
qed

lemma mockEmotions_fear:
  assumes "random_ok rnd 7"
  shows "20 \<le> prop_or0 (mockEmotions rnd) ''fear''"
proof -
  have "0 \<le> rnd 2" using assms by (simp add: random_ok_def)
  then show ?thesis by (simp add: mockEmotions_def prop_or0_def)
qed

lemma random_ok_constant: "0 \<le> c \<Longrightarrow> c < 1 \<Longrightarrow> random_ok (constant_source c) n"
  by (simp add: random_ok_def constant_source_def)

lemma dominant_mock: "\<exists>d. dominant (normalize_obj (mockEmotions rnd)) = Some d"
  by (simp add: dominant_def normalize_obj_def mockEmotions_def Let_def)

text \<open>
  C9. The mock normalisation never divides by zero: for every result of the random
  source the generated values are non-negative, the fear value is at least 20, and the
  total that every value is divided by is positive.
\<close>

theorem C9_mock_total_positive:
  assumes "random_ok rnd 7"
  shows "(\<forall>x \<in> set (mockEmotions rnd). 0 \<le> snd x) \<and>
         20 \<le> prop_or0 (mockEmotions rnd) ''fear'' \<and>
         0 < total_of (mockEmotions rnd)"
  using mockEmotions_nonneg [OF assms] mockEmotions_fear [OF assms] mockEmotions_total [OF assms]
  by simp

theorem C9_mock_total_positive_witness:
  "20 \<le> prop_or0 (mockEmotions (constant_source (1 / 2))) ''fear'' \<and>
   0 < total_of (mockEmotions (constant_source (1 / 2)))"
proof -
  have h: "random_ok (constant_source (1 / 2)) 7"
    by (rule random_ok_constant) simp_all
  from C9_mock_total_positive [OF h] show ?thesis
    by (elim conjE) (intro conjI; assumption)
qed

text \<open>
  C3. For every result of the random source the simplified analysis route answers with
  status 200 and an \<^verbatim>\<open>emotions\<close> object whose values each lie between 0 and 100
  and sum to 100. The sum is exact here because numbers are real numbers.
\<close>

theorem C3_emitted_emotions_normalized:
  assumes "random_ok rnd 7"
  shows "\<exists>b ems. analyze_simple_frame rnd = Res 200 b \<and>
                  field b ''emotions'' = Some (num_obj ems) \<and>
                  (\<forall>x \<in> set ems. 0 \<le> snd x \<and> snd x \<le> 100) \<and>
                  sum_list (map snd ems) = 100"
proof -
  let ?n = "normalize_obj (mockEmotions rnd)"
  obtain d where d: "dominant ?n = Some d"
    using dominant_mock by blast
  have pos: "0 < total_of (mockEmotions rnd)"
    using mockEmotions_total [OF assms] by simp
  have r: "\<forall>x \<in> set ?n. 0 \<le> snd x \<and> snd x \<le> 100"
    using mockEmotions_nonneg [OF assms] pos by (rule normalize_obj_range)
  have s: "sum_list (map snd ?n) = 100"
    using pos by (intro normalize_obj_sum) simp
  have "analyze_simple_frame rnd =
      Res 200 (JObj [(''faceDetected'', JBool True), (''emotions'', num_obj ?n),
                     (''dominantEmotion'', JStr d),
                     (''shockScore'', JNum (calculateShockScore ?n)),
                     (''_mode'', JStr ''mock'')])"
    by (simp add: analyze_simple_frame_def Let_def d)
  moreover have "field (JObj [(''faceDetected'', JBool True), (''emotions'', num_obj ?n),
                     (''dominantEmotion'', JStr d),
                     (''shockScore'', JNum (calculateShockScore ?n)),
                     (''_mode'', JStr ''mock'')]) ''emotions'' = Some (num_obj ?n)"
    by (simp add: field_def)
  ultimately show ?thesis using r s by blast
qed

theorem C3_emitted_emotions_normalized_witness:
  "\<exists>b ems. analyze_simple_frame (constant_source (1 / 2)) = Res 200 b \<and>
            field b ''emotions'' = Some (num_obj ems) \<and>
            (\<forall>x \<in> set ems. 0 \<le> snd x \<and> snd x \<le> 100) \<and>
            sum_list (map snd ems) = 100"
proof -
  have h: "random_ok (constant_source (1 / 2)) 7"
    by (rule random_ok_constant) simp_all
  show ?thesis
    by (rule C3_emitted_emotions_normalized [OF h])
qed

section \<open>Properties of the frame-analysis routes\<close>

text \<open>
  C5. When a frame was uploaded and the analyzer ran and detected no face (its first
  output line is absent, or its \<^verbatim>\<open>faceDetected\<close> is false), the route answers with
  status 200 and \<^verbatim>\<open>faceDetected\<close> false, and does not pass an error on. The
  analyzer is only reached after \<^verbatim>\<open>mkdir\<close> and \<^verbatim>\<open>writeFile\<close> succeeded.
\<close>

theorem C5_no_face_is_success:
  assumes "a = None \<or> (\<exists>x. a = Some x \<and> \<not> faceDetected x)"
  shows "analyze_frame coerce (Some buf) True True (PyResolved a) rnd =
           Res 200 (JObj [(''faceDetected'', JBool False),
                          (''message'', JStr ''No face detected in frame'')])"
  using assms by (auto simp: analyze_frame_def no_face_response_def)

theorem C5_no_face_is_success_witness:
  "analyze_frame no_coercion (Some ''frame'') True True
     (PyResolved (Some \<lparr>faceDetected = False, emotions = None, dominantEmotion = None, other = []\<rparr>))
     (constant_source 0) =
   Res 200 (JObj [(''faceDetected'', JBool False),
                  (''message'', JStr ''No face detected in frame'')])"
  by (rule C5_no_face_is_success) simp

text \<open>
  C4 (as stated, refuted). The claim says that a failed analyzer call yields the same
  outcome as a frame without a face and reports no face. When the analyzer call is
  rejected, the response differs from the no-face response and has
  \<^verbatim>\<open>faceDetected\<close> true.
\<close>

theorem C4_python_failure_counterexample:
  "analyze_frame no_coercion (Some ''frame'') True True PyRejected (constant_source 0) \<noteq>
     analyze_frame no_coercion (Some ''frame'') True True (PyResolved None) (constant_source 0) \<and>
   res_field (analyze_frame no_coercion (Some ''frame'') True True PyRejected (constant_source 0)) ''faceDetected''
     = Some (JBool True) \<and>
   res_field (analyze_frame no_coercion (Some ''frame'') True True (PyResolved None) (constant_source 0)) ''faceDetected''
     = Some (JBool False)"
  by (simp add: analyze_frame_def python_error_response_def no_face_response_def
      res_field_def field_def)

text \<open>
  C4 (amended). When the analyzer call fails, the route does not abort: it answers
  with status 200, \<^verbatim>\<open>faceDetected\<close> true, mock values for the seven emotion
  categories (each at least 0 and below 40), the dominant emotion \<^verbatim>\<open>neutral\<close>, a
  mock shock score that is at least 0 and below 50, and a note that mock data is used.
  This response is not the one given for a frame without a face.
\<close>

theorem C4_python_failure_mock_response:
  assumes "random_ok rnd 8"
  shows "res_status (analyze_frame coerce (Some buf) True True PyRejected rnd) = Some 200 \<and>
         res_field (analyze_frame coerce (Some buf) True True PyRejected rnd) ''faceDetected'' = Some (JBool True) \<and>
         res_field (analyze_frame coerce (Some buf) True True PyRejected rnd) ''dominantEmotion'' = Some (JStr ''neutral'') \<and>
         res_field (analyze_frame coerce (Some buf) True True PyRejected rnd) ''_note''
           = Some (JStr ''Using mock data - Python engine unavailable'') \<and>
         (\<exists>s. res_field (analyze_frame coerce (Some buf) True True PyRejected rnd) ''shockScore'' = Some (JNum s)
              \<and> 0 \<le> s \<and> s < 50) \<and>
         (\<exists>ems. res_field (analyze_frame coerce (Some buf) True True PyRejected rnd) ''emotions'' = Some (num_obj ems)
              \<and> map fst ems = [''angry'', ''disgust'', ''fear'', ''happy'', ''sad'', ''surprise'', ''neutral'']
              \<and> (\<forall>x \<in> set ems. 0 \<le> snd x \<and> snd x < 40)) \<and>
         analyze_frame coerce (Some buf) True True PyRejected rnd \<noteq>
           analyze_frame coerce (Some buf) True True (PyResolved None) rnd"
proof -
  have r: "0 \<le> rnd 0 \<and> rnd 0 < 1" "0 \<le> rnd 1 \<and> rnd 1 < 1" "0 \<le> rnd 2 \<and> rnd 2 < 1"
    "0 \<le> rnd 3 \<and> rnd 3 < 1" "0 \<le> rnd 4 \<and> rnd 4 < 1" "0 \<le> rnd 5 \<and> rnd 5 < 1"
    "0 \<le> rnd 6 \<and> rnd 6 < 1" "0 \<le> rnd 7 \<and> rnd 7 < 1"
    using assms by (simp_all add: random_ok_def)
  let ?ems = "[(''angry'', rnd 0 * 10), (''disgust'', rnd 1 * 5), (''fear'', rnd 2 * 30),
               (''happy'', rnd 3 * 20), (''sad'', rnd 4 * 15), (''surprise'', rnd 5 * 20),
               (''neutral'', rnd 6 * 40)]"
  have e: "res_field (analyze_frame coerce (Some buf) True True PyRejected rnd) ''emotions'' = Some (num_obj ?ems)"
    by (simp add: analyze_frame_def python_error_response_def res_field_def field_def)
  have b: "\<forall>x \<in> set ?ems. 0 \<le> snd x \<and> snd x < 40"
    using r by simp
  have k: "map fst ?ems = [''angry'', ''disgust'', ''fear'', ''happy'', ''sad'', ''surprise'', ''neutral'']"
    by simp
  have s: "res_field (analyze_frame coerce (Some buf) True True PyRejected rnd) ''shockScore'' = Some (JNum (rnd 7 * 50))"
    by (simp add: analyze_frame_def python_error_response_def res_field_def field_def)
  have sb: "0 \<le> rnd 7 * 50 \<and> rnd 7 * 50 < 50"
    using r(8) by simp
  have rest: "res_status (analyze_frame coerce (Some buf) True True PyRejected rnd) = Some 200"
    "res_field (analyze_frame coerce (Some buf) True True PyRejected rnd) ''faceDetected'' = Some (JBool True)"
    "res_field (analyze_frame coerce (Some buf) True True PyRejected rnd) ''dominantEmotion'' = Some (JStr ''neutral'')"
    "res_field (analyze_frame coerce (Some buf) True True PyRejected rnd) ''_note''
           = Some (JStr ''Using mock data - Python engine unavailable'')"
    "analyze_frame coerce (Some buf) True True PyRejected rnd \<noteq>
           analyze_frame coerce (Some buf) True True (PyResolved None) rnd"
    by (simp_all add: analyze_frame_def python_error_response_def no_face_response_def
        res_field_def res_status_def field_def)
  have es: "\<exists>s. res_field (analyze_frame coerce (Some buf) True True PyRejected rnd) ''shockScore'' = Some (JNum s)
              \<and> 0 \<le> s \<and> s < 50"
    using s sb by (intro exI [of _ "rnd 7 * 50"] conjI) simp_all
  have ee: "\<exists>ems. res_field (analyze_frame coerce (Some buf) True True PyRejected rnd) ''emotions'' = Some (num_obj ems)
              \<and> map fst ems = [''angry'', ''disgust'', ''fear'', ''happy'', ''sad'', ''surprise'', ''neutral'']
              \<and> (\<forall>x \<in> set ems. 0 \<le> snd x \<and> snd x < 40)"
    using e b k by (intro exI [of _ ?ems] conjI)
  show ?thesis
    using rest es ee by (intro conjI)
qed

theorem C4_python_failure_mock_response_witness:
  "res_status (analyze_frame no_coercion (Some ''frame'') True True PyRejected (constant_source (1 / 2))) = Some 200 \<and>
   res_field (analyze_frame no_coercion (Some ''frame'') True True PyRejected (constant_source (1 / 2))) ''faceDetected''
     = Some (JBool True)"
proof -
  have h: "random_ok (constant_source (1 / 2)) 8"
    by (rule random_ok_constant) simp_all
  from C4_python_failure_mock_response [OF h, of no_coercion "''frame''"] show ?thesis
    by (elim conjE) (intro conjI; assumption)
qed






















section \<open>Properties of the video routes\<close>

text \<open>
  C10. For every video id the status route answers with status 200: the status is
  \<^verbatim>\<open>completed\<close> and \<^verbatim>\<open>reportAvailable\<close> is true exactly when the report path has an
  entry, and the status is \<^verbatim>\<open>processing\<close> and \<^verbatim>\<open>reportAvailable\<close> is false
  otherwise. It never answers 404 and leaves the file system as it was.
\<close>

theorem C10_status_total:
  "get_status join dirname fs videoId =
     (Res 200 (JObj [(''videoId'', JStr videoId),
                     (''status'', JStr (if fs (reportPath join dirname videoId) \<noteq> None
                                        then ''completed'' else ''processing'')),
                     (''reportAvailable'', JBool (fs (reportPath join dirname videoId) \<noteq> None))]),
      fs)"
  by (simp add: get_status_def split: option.split)

text \<open>
  C7. Retrieving a report is deterministic and read-only: against two file systems
  that agree at the report path the route gives the same response, a second retrieval
  after the first gives the same response again, and the file system is left as it was.
\<close>

theorem C7_report_read_only_deterministic:
  assumes "fs (reportPath join dirname videoId) = fs' (reportPath join dirname videoId)"
  shows "fst (get_report parse join dirname fs videoId) = fst (get_report parse join dirname fs' videoId) \<and>
         snd (get_report parse join dirname fs videoId) = fs \<and>
         snd (get_report parse join dirname fs' videoId) = fs' \<and>
         fst (get_report parse join dirname (snd (get_report parse join dirname fs videoId)) videoId) =
           fst (get_report parse join dirname fs videoId)"
  using assms by (simp add: get_report_def split: option.split entry.split)

theorem C7_report_read_only_deterministic_witness:
  "fst (get_report (Some \<circ> JStr) slash_join ''/srv/routes''
          [''/srv/routes/../uploads/v1-report.json'' \<mapsto> File ''{}''] ''v1'') =
   fst (get_report (Some \<circ> JStr) slash_join ''/srv/routes''
          [''/srv/routes/../uploads/v1-report.json'' \<mapsto> File ''{}'',
           ''/srv/routes/../uploads/v2-report.json'' \<mapsto> Dir] ''v1'') \<and>
   snd (get_report (Some \<circ> JStr) slash_join ''/srv/routes''
          [''/srv/routes/../uploads/v1-report.json'' \<mapsto> File ''{}''] ''v1'') =
     [''/srv/routes/../uploads/v1-report.json'' \<mapsto> File ''{}'']"
proof -
  have h: "[''/srv/routes/../uploads/v1-report.json'' \<mapsto> File ''{}'']
             (reportPath slash_join ''/srv/routes'' ''v1'') =
           [''/srv/routes/../uploads/v1-report.json'' \<mapsto> File ''{}'',
            ''/srv/routes/../uploads/v2-report.json'' \<mapsto> Dir]
             (reportPath slash_join ''/srv/routes'' ''v1'')"
    by (simp add: reportPath_def slash_join_def)
  from C7_report_read_only_deterministic
    [where fs = "[''/srv/routes/../uploads/v1-report.json'' \<mapsto> File ''{}'']"
       and fs' = "[''/srv/routes/../uploads/v1-report.json'' \<mapsto> File ''{}'',
                   ''/srv/routes/../uploads/v2-report.json'' \<mapsto> Dir]"
       and join = slash_join and dirname = "''/srv/routes''" and videoId = "''v1''"
       and parse = "Some \<circ> JStr", OF h]
  show ?thesis
    by (elim conjE) (intro conjI; assumption)
qed

end
